theory Spec2Isabelle
  imports Main
begin

section \<open>Values shared by the package\<close>

text \<open>
  The package \<open>rp\<close> is a client of a remote test-reporting service. Its functions build
  HTTP requests, hand them to the collaborator \<open>doRequest\<close> and interpret the reply.
  The embedding keeps the control flow of every function; what the Go libraries do with
  bytes is represented by the values those bytes encode.
\<close>

subsection \<open>JSON documents\<close>

text \<open>
  A JSON text is represented by the value it encodes. The members of an object are kept
  in their order, with duplicates, as \<open>encoding/json\<close> writes and reads them. A number is
  kept as an integer: the requests of this package only carry \<open>int64\<close> timestamps.
\<close>

datatype json =
    JNull
  | JBool bool
  | JNumber int
  | JString string
  | JArray "json list"
  | JObject "(string \<times> json) list"

subsection \<open>Errors and results\<close>

text \<open>
  \<open>New m\<close> is an error value with message \<open>m\<close> (\<open>errors.Errorf\<close>, or an error made by a
  library or a collaborator); \<open>Wrapf e m\<close> is \<open>errors.Wrapf(e, m)\<close>, the cause \<open>e\<close> with
  the context \<open>m\<close> attached.
\<close>

datatype error = New string | Wrapf error string

text \<open>
  What a call of a Go function comes to: a run-time panic, a return with a non-nil
  error, or a return with a nil error and a value.
\<close>

datatype 'a ret = Panic | Failed error | Done 'a

subsection \<open>Functions of package \<open>strings\<close> and \<open>strconv\<close>\<close>

definition HasPrefix :: "string \<Rightarrow> string \<Rightarrow> bool" where
  "HasPrefix s p = (take (length p) s = p)"

definition HasSuffix :: "string \<Rightarrow> string \<Rightarrow> bool" where
  "HasSuffix s x = (length x \<le> length s \<and> drop (length s - length x) s = x)"

definition TrimSuffix :: "string \<Rightarrow> string \<Rightarrow> string" where
  "TrimSuffix s x = (if HasSuffix s x then take (length s - length x) s else s)"

fun Contains :: "string \<Rightarrow> string \<Rightarrow> bool" where
  "Contains [] x = (x = [])"
| "Contains (c # cs) x = (HasPrefix (c # cs) x \<or> Contains cs x)"

fun digits :: "nat \<Rightarrow> string" where
  "digits n = (if n < 10 then [''0123456789'' ! n]
               else digits (n div 10) @ [''0123456789'' ! (n mod 10)])"

definition Itoa :: "int \<Rightarrow> string" where
  "Itoa i = (if i < 0 then CHR ''-'' # digits (nat (- i)) else digits (nat i))"

section \<open>Connection configuration\<close>

record Client =
  Endpoint :: string
  Token :: string
  Project :: string

text \<open>
  \<open>NewClient\<close>, with the string builder \<open>esb\<close> as the string written so far. Go's \<open>int\<close>
  is read as an unbounded integer: the function only compares it with 1 and prints it.
\<close>

definition NewClient :: "string \<Rightarrow> string \<Rightarrow> string \<Rightarrow> int \<Rightarrow> Client" where
  "NewClient endpoint project token apiVersion =
    (let endpoint = TrimSuffix endpoint ''/'';
         esb = (if \<not> HasPrefix endpoint ''https://'' \<and> \<not> HasPrefix endpoint ''http://''
                then ''https://'' else '''');
         esb = esb @ endpoint;
         apiVersion = (if apiVersion < 1 then 1 else apiVersion);
         esb = (if \<not> Contains endpoint ''/api/v''
                then esb @ ''/api/v'' @ Itoa apiVersion else esb)
     in \<lparr>Endpoint = esb, Token = token, Project = project\<rparr>)"

section \<open>Collaborators\<close>

subsection \<open>Wall clock\<close>

text \<open>
  A \<open>time.Time\<close> by what \<open>Unix()\<close> and \<open>Nanosecond()\<close> read from it. The zero value of
  \<open>time.Time\<close> is January 1 of year 1, 00:00 UTC.
\<close>

record Time =
  Unix :: int
  Nanosecond :: int

definition zeroTime :: Time where
  "zeroTime = \<lparr>Unix = - 62135596800, Nanosecond = 0\<rparr>"

definition int64 :: "int \<Rightarrow> int" where
  "int64 i = (i + 2 ^ 63) mod 2 ^ 64 - 2 ^ 63"

text \<open>
  Modelled from the spec: \<open>toTimestamp\<close> is called in this file and defined in another
  file of the package. The spec gives its rule: seconds times 1000 plus nanoseconds
  divided by \<open>1e6\<close>, an \<open>int64\<close> of epoch milliseconds.
\<close>

definition toTimestamp :: "Time \<Rightarrow> int" where
  "toTimestamp t = int64 (Unix t * 1000 + Nanosecond t div 1000000)"

subsection \<open>Requests\<close>

text \<open>
  The bytes of a body: the output of \<open>json.Marshal\<close>, represented by the document, or
  bytes copied from a reader. A multipart body is the boundary of its writer and the
  parts written before \<open>Close\<close>; a part is its header lines in the order
  \<open>multipart.Writer.CreatePart\<close> writes them (sorted by key) and its content.
\<close>

datatype payload = JSON json | Raw string

record part =
  Header :: "(string \<times> string) list"
  Content :: payload

datatype body = NoBody | Bytes payload | Multipart string "part list"

record request =
  Method :: string
  URL :: string
  ContentType :: "string option"
  ReqBody :: body

subsection \<open>Responses\<close>

text \<open>
  What a \<open>json.Decoder\<close> finds on a response body: reading or scanning the first JSON
  value fails with an error, or there is a document.
\<close>

datatype stream = Broken error | Document json

record response =
  StatusCode :: int
  Status :: string
  Body :: stream

text \<open>
  \<open>doRequest\<close> returns \<open>(*http.Response, error)\<close>: the pointer is \<open>None\<close> when nil, the
  error is \<open>None\<close> when nil. The body of a response that is there is never nil.
\<close>

type_synonym reply = "response option \<times> error option"

section \<open>Test entities\<close>

text \<open>
  Modelled from the spec: the type \<open>Launch\<close> is declared in another file of the package;
  this file reads its \<open>Id\<close> and its \<open>client\<close>.
\<close>

record Launch =
  Launch_Id :: string
  Launch_client :: Client

text \<open>
  A \<open>*TestItem\<close> is an address; the entities live in a store, so that a child reads the
  \<open>Id\<close> its parent has when the child starts. The store is total: a Go pointer that is
  not nil points to a value. \<open>client\<close> and \<open>launch\<close> are never written by this file and
  are kept by value; an entity made by \<open>NewTestItem\<close> has both. A nil slice is \<open>None\<close>.
\<close>

type_synonym addr = nat

record TestItem =
  Id' :: string
  Name :: string
  Description :: string
  Parent :: "addr option"
  Parameters :: "(string \<times> string) list option"
  Retry :: bool
  StartTime :: Time
  Tags :: "string list option"
  Type :: string
  client :: Client
  launch :: Launch

text \<open>
  An \<open>io.Reader\<close> by what reading it to the end gives: the bytes delivered, then end
  of file (\<open>None\<close>) or an error. A nil reader is \<open>None\<close> in \<open>Data\<close>.
\<close>

datatype reader = Reader string "error option"

record Attachment =
  Attachment_Name :: string
  Data :: "reader option"
  MimeType :: string

subsection \<open>Read-only reports\<close>

record Widget =
  Widget_Id :: string
  Size :: "int list option"
  Position :: "int list option"

record DashboardItem =
  Owner :: string
  Share :: bool
  Dashboard_Id :: string
  Dashboard_Name :: string
  Widgets :: "Widget option list option"

type_synonym Dashboard = "DashboardItem list option"

record ActivityHistory =
  Field :: string
  NewValue :: string
  OldValue :: string

record ActivityContent =
  ActionType :: string
  ActivityId :: string
  History :: "ActivityHistory list option"
  LastModifiedDate :: Time
  LoggedObjectRef :: string
  ObjectName :: string
  ObjectType :: string
  ProjectRef :: string
  UserRef :: string

record ActivityPage =
  Number :: int
  Page_Size :: int
  TotalElements :: int
  TotalPages :: int

record Activity =
  Activity_Content :: "ActivityContent list option"
  Page :: ActivityPage

subsection \<open>The outside world of one call\<close>

text \<open>
  What a call reads from outside the package: the clock, whether \<open>http.NewRequest\<close> can
  parse a URL (\<open>None\<close>: it can), the collaborator \<open>doRequest\<close>, the random boundary of
  a new \<open>multipart.Writer\<close>, and what a \<open>json.Decoder\<close> makes of a response body when it
  decodes into a \<open>*Dashboard\<close> (\<open>None\<close>: the pointer stays nil).
\<close>

record env =
  Now :: Time
  parseURL :: "string \<Rightarrow> error option"
  doRequest :: "request \<Rightarrow> string \<Rightarrow> reply"
  randomBoundary :: string
  decodeDashboard :: "stream \<Rightarrow> error + Dashboard option"

text \<open>The entities, and the requests handed to \<open>doRequest\<close> so far, each with its token.\<close>

record world =
  items :: "addr \<Rightarrow> TestItem"
  sent :: "(request \<times> string) list"

definition send :: "env \<Rightarrow> request \<Rightarrow> string \<Rightarrow> world \<Rightarrow> reply \<times> world" where
  "send e req token w = (doRequest e req token, w\<lparr>sent := sent w @ [(req, token)]\<rparr>)"

subsection \<open>Library calls\<close>

text \<open>
  \<open>json.Marshal\<close> on the request structures of this file: their fields are strings,
  string slices and \<open>int64\<close>, which it always encodes.
\<close>

definition Marshal :: "json \<Rightarrow> error + payload" where
  "Marshal j = Inr (JSON j)"

definition strings_json :: "string list option \<Rightarrow> json" where
  "strings_json xs = (case xs of None \<Rightarrow> JNull | Some ys \<Rightarrow> JArray (map JString ys))"

text \<open>\<open>http.NewRequest\<close> with a valid method: it fails when the URL does not parse.\<close>

definition NewRequest :: "env \<Rightarrow> string \<Rightarrow> string \<Rightarrow> body \<Rightarrow> error + request" where
  "NewRequest e method url b =
    (case parseURL e url of
       Some err \<Rightarrow> Inl err
     | None \<Rightarrow> Inr \<lparr>Method = method, URL = url, ContentType = None, ReqBody = b\<rparr>)"

text \<open>
  Decoding a document into \<open>struct { Id string `json:"id"` }\<close>. A member sets the field
  when its key is \<open>id\<close> in any letter case; a string is stored, \<open>null\<close> is skipped, any
  other value is a type error that is saved while the remaining members are read. A
  top-level \<open>null\<close> leaves the structure as it is; any other non-object is a type error.
  The messages of the type errors are shortened.
\<close>

definition key_is_id :: "string \<Rightarrow> bool" where
  "key_is_id k = (k = ''id'' \<or> k = ''Id'' \<or> k = ''iD'' \<or> k = ''ID'')"

fun object_id :: "(string \<times> json) list \<Rightarrow> string \<times> error option \<Rightarrow> string \<times> error option" where
  "object_id [] acc = acc"
| "object_id ((k, v) # kvs) (cur, saved) =
    (if key_is_id k then
       (case v of
          JString s \<Rightarrow> object_id kvs (s, saved)
        | JNull \<Rightarrow> object_id kvs (cur, saved)
        | _ \<Rightarrow> object_id kvs (cur,
            (case saved of
               None \<Rightarrow> Some (New ''json: cannot unmarshal into Go struct field .id of type string'')
             | Some err \<Rightarrow> Some err)))
     else object_id kvs (cur, saved))"

definition Decode_id :: "stream \<Rightarrow> error + string" where
  "Decode_id b =
    (case b of
       Broken err \<Rightarrow> Inl err
     | Document j \<Rightarrow>
        (case j of
           JNull \<Rightarrow> Inr ''''
         | JObject kvs \<Rightarrow>
            (case object_id kvs ('''', None) of
               (v, None) \<Rightarrow> Inr v
             | (v, Some err) \<Rightarrow> Inl err)
         | _ \<Rightarrow> Inl (New ''json: cannot unmarshal into Go value of type struct'')))"

section \<open>Operations of a test entity\<close>

definition NewTestItem ::
  "Launch \<Rightarrow> string \<Rightarrow> string \<Rightarrow> string \<Rightarrow> string list option \<Rightarrow> addr option \<Rightarrow> TestItem" where
  "NewTestItem l name description itemType tags parent =
    \<lparr>Id' = '''', Name = name, Description = description, Parent = parent,
     Parameters = None, Retry = False, StartTime = zeroTime, Tags = tags,
     Type = itemType, client = Launch_client l, launch = l\<rparr>"

text \<open>
  In every operation \<open>defer resp.Body.Close()\<close> stands between the call of \<open>doRequest\<close>
  and the test of its error. The deferred call evaluates \<open>resp.Body\<close> at the \<open>defer\<close>
  statement: with a nil \<open>resp\<close> that is a nil dereference, a run-time panic, whatever
  the error is. In the messages \<open>req.URL\<close> is written as the URL the request was made of,
  and the message of a marshal failure, which these structures never cause, is written
  without the rendering of the data.
\<close>

definition Start :: "env \<Rightarrow> addr \<Rightarrow> world \<Rightarrow> unit ret \<times> world" where
  "Start e a w =
    (let ti = items w a;
         url = (case Parent ti of
                  Some p \<Rightarrow> Endpoint (client ti) @ ''/'' @ Project (client ti) @ ''/item/''
                              @ Id' (items w p)
                | None \<Rightarrow> Endpoint (client ti) @ ''/'' @ Project (client ti) @ ''/item'');
         data = JObject
           [(''name'', JString (Name ti)),
            (''description'', JString (Description ti)),
            (''tags'', strings_json (Tags ti)),
            (''start_time'', JNumber (toTimestamp (Now e))),
            (''launch_id'', JString (Launch_Id (launch ti))),
            (''type'', JString (Type ti)),
            (''parameters'', JNull)]
     in case Marshal data of
          Inl err \<Rightarrow> (Failed (Wrapf err ''failed to marshal object''), w)
        | Inr b \<Rightarrow>
           (case NewRequest e ''POST'' url (Bytes b) of
              Inl err \<Rightarrow> (Failed (Wrapf err (''failed to create POST request to '' @ url)), w)
            | Inr req0 \<Rightarrow>
               (let req = req0\<lparr>ContentType := Some ''application/json''\<rparr>;
                    (rep, w1) = send e req (Token (client ti)) w
                in case rep of
                     (None, err) \<Rightarrow> (Panic, w1)
                   | (Some resp, Some err) \<Rightarrow>
                       (Failed (Wrapf err (''failed to execute POST request '' @ URL req)), w1)
                   | (Some resp, None) \<Rightarrow>
                       if StatusCode resp \<noteq> 201
                       then (Failed (New (''failed with status '' @ Status resp)), w1)
                       else (case Decode_id (Body resp) of
                               Inl err \<Rightarrow>
                                 (Failed (Wrapf err (''failed to decode response from '' @ URL req)), w1)
                             | Inr v \<Rightarrow>
                                 (Done (), w1\<lparr>items := (items w1)(a := (items w1 a)\<lparr>Id' := v\<rparr>)\<rparr>)))))"

definition Finish :: "env \<Rightarrow> addr \<Rightarrow> string \<Rightarrow> world \<Rightarrow> unit ret \<times> world" where
  "Finish e a status w =
    (let ti = items w a;
         url = Endpoint (client ti) @ ''/'' @ Project (client ti) @ ''/item/'' @ Id' ti;
         data = JObject
           [(''end_time'', JNumber (toTimestamp (Now e))),
            (''status'', JString status)]
     in case Marshal data of
          Inl err \<Rightarrow> (Failed (Wrapf err ''failed to marshal request data''), w)
        | Inr b \<Rightarrow>
           (case NewRequest e ''PUT'' url (Bytes b) of
              Inl err \<Rightarrow> (Failed (Wrapf err (''failed to create PUT request to '' @ url)), w)
            | Inr req0 \<Rightarrow>
               (let req = req0\<lparr>ContentType := Some ''application/json''\<rparr>;
                    (rep, w1) = send e req (Token (client ti)) w
                in case rep of
                     (None, err) \<Rightarrow> (Panic, w1)
                   | (Some resp, Some err) \<Rightarrow>
                       (Failed (Wrapf err (''failed to execute PUT request to '' @ URL req)), w1)
                   | (Some resp, None) \<Rightarrow>
                       if StatusCode resp \<noteq> 200
                       then (Failed (New (''failed with status '' @ Status resp)), w1)
                       else (Done (), w1))))"

definition quoted :: "string \<Rightarrow> string" where
  "quoted s = CHR 0x22 # s @ [CHR 0x22]"

definition getReqForLogWithAttach ::
  "env \<Rightarrow> TestItem \<Rightarrow> string \<Rightarrow> string \<Rightarrow> Attachment \<Rightarrow> request ret" where
  "getReqForLogWithAttach e ti message level attachment =
    (let url = Endpoint (client ti) @ ''/'' @ Project (client ti) @ ''/log'';
         h = [(''Content-Disposition'', ''form-data; name='' @ quoted ''json_request_part''),
              (''Content-Type'', ''application/json'')];
         jsonReqPart = JArray [JObject
           [(''file'', JObject [(''name'', JString (Attachment_Name attachment))]),
            (''item_id'', JString (Id' ti)),
            (''level'', JString level),
            (''message'', JString message),
            (''time'', JNumber (toTimestamp (Now e)))]]
     in case Marshal jsonReqPart of
          Inl err \<Rightarrow> Failed (Wrapf err ''failed to marshal to JSON'')
        | Inr bs \<Rightarrow>
           (let parts = [\<lparr>Header = h, Content = bs\<rparr>];
                h = [(''Content-Disposition'',
                       ''form-data; name='' @ quoted ''file'' @ ''; filename=''
                         @ quoted (Attachment_Name attachment)),
                     (''Content-Type'', MimeType attachment)]
            in case Data attachment of
                 None \<Rightarrow> Panic
               | Some (Reader bytes (Some err)) \<Rightarrow> Failed (Wrapf err ''failed to copy file writer'')
               | Some (Reader bytes None) \<Rightarrow>
                  (let parts = parts @ [\<lparr>Header = h, Content = Raw bytes\<rparr>]
                   in case NewRequest e ''POST'' url (Multipart (randomBoundary e) parts) of
                        Inl err \<Rightarrow> Failed (Wrapf err (''failed to create POST request to '' @ url))
                      | Inr req \<Rightarrow>
                          Done (req\<lparr>ContentType :=
                            Some (''multipart/form-data; boundary='' @ randomBoundary e)\<rparr>))))"

definition getReqForLog :: "env \<Rightarrow> TestItem \<Rightarrow> string \<Rightarrow> string \<Rightarrow> request ret" where
  "getReqForLog e ti message level =
    (let url = Endpoint (client ti) @ ''/'' @ Project (client ti) @ ''/log'';
         data = JObject
           [(''item_id'', JString (Id' ti)),
            (''message'', JString message),
            (''level'', JString level),
            (''time'', JNumber (toTimestamp (Now e)))]
     in case Marshal data of
          Inl err \<Rightarrow> Failed (Wrapf err ''failed to marshal object'')
        | Inr b \<Rightarrow>
           (case NewRequest e ''POST'' url (Bytes b) of
              Inl err \<Rightarrow> Failed (Wrapf err (''failed to create POST request to '' @ url))
            | Inr req \<Rightarrow> Done (req\<lparr>ContentType := Some ''application/json''\<rparr>)))"

definition Log ::
  "env \<Rightarrow> addr \<Rightarrow> string \<Rightarrow> string \<Rightarrow> Attachment option \<Rightarrow> world \<Rightarrow> unit ret \<times> world" where
  "Log e a message level attachment w =
    (let ti = items w a
     in case (case attachment of
                Some att \<Rightarrow> getReqForLogWithAttach e ti message level att
              | None \<Rightarrow> getReqForLog e ti message level) of
          Panic \<Rightarrow> (Panic, w)
        | Failed err \<Rightarrow> (Failed err, w)
        | Done req \<Rightarrow>
           (let (rep, w1) = send e req (Token (client ti)) w
            in case rep of
                 (None, err) \<Rightarrow> (Panic, w1)
               | (Some resp, Some err) \<Rightarrow>
                   (Failed (Wrapf err (''failed to execute POST request '' @ URL req)), w1)
               | (Some resp, None) \<Rightarrow>
                   if StatusCode resp \<noteq> 201
                   then (Failed (New (''failed with status '' @ Status resp)), w1)
                   else (Done (), w1)))"

definition Update ::
  "env \<Rightarrow> addr \<Rightarrow> string \<Rightarrow> string list option \<Rightarrow> world \<Rightarrow> unit ret \<times> world" where
  "Update e a description tags w =
    (let ti = items w a;
         url = Endpoint (client ti) @ ''/'' @ Project (client ti) @ ''/item/'' @ Id' ti
                 @ ''/update'';
         data = JObject
           [(''description'', JString description),
            (''tags'', strings_json tags)]
     in case Marshal data of
          Inl err \<Rightarrow> (Failed (Wrapf err ''failed to marshal request data''), w)
        | Inr b \<Rightarrow>
           (case NewRequest e ''PUT'' url (Bytes b) of
              Inl err \<Rightarrow> (Failed (Wrapf err (''failed to create PUT request to '' @ url)), w)
            | Inr req0 \<Rightarrow>
               (let req = req0\<lparr>ContentType := Some ''application/json''\<rparr>;
                    (rep, w1) = send e req (Token (client ti)) w
                in case rep of
                     (None, err) \<Rightarrow> (Panic, w1)
                   | (Some resp, Some err) \<Rightarrow>
                       (Failed (Wrapf err (''failed to execute PUT request to '' @ URL req)), w1)
                   | (Some resp, None) \<Rightarrow>
                       if StatusCode resp \<noteq> 200
                       then (Failed (New (''failed with status '' @ Status resp)), w1)
                       else (Done (), w1\<lparr>items := (items w1)
                               (a := (items w1 a)\<lparr>Description := description, Tags := tags\<rparr>)\<rparr>))))"

text \<open>\<open>GetActivity\<close> returns a nil \<open>*Activity\<close> and a nil error, and calls nothing.\<close>

definition GetActivity :: "addr \<Rightarrow> world \<Rightarrow> Activity option ret \<times> world" where
  "GetActivity a w = (Done None, w)"

section \<open>Operations of the client\<close>

definition CheckConnect :: "env \<Rightarrow> Client \<Rightarrow> world \<Rightarrow> unit ret \<times> world" where
  "CheckConnect e c w =
    (let url = Endpoint c @ ''/user''
     in case NewRequest e ''GET'' url NoBody of
          Inl err \<Rightarrow> (Failed (Wrapf err (''can't create a new request for '' @ url)), w)
        | Inr req \<Rightarrow>
           (let (rep, w1) = send e req (Token c) w
            in case rep of
                 (None, err) \<Rightarrow> (Panic, w1)
               | (Some resp, Some err) \<Rightarrow>
                   (Failed (Wrapf err (''failed to execute GET request '' @ URL req)), w1)
               | (Some resp, None) \<Rightarrow>
                   if StatusCode resp \<noteq> 200
                   then (Failed (New (''failed with status '' @ Status resp)), w1)
                   else (Done (), w1)))"

definition GetDashboard :: "env \<Rightarrow> Client \<Rightarrow> world \<Rightarrow> Dashboard option ret \<times> world" where
  "GetDashboard e c w =
    (let url = Endpoint c @ ''/'' @ Project c @ ''/dashboard''
     in case NewRequest e ''GET'' url NoBody of
          Inl err \<Rightarrow> (Failed (Wrapf err (''can't create request for '' @ url)), w)
        | Inr req0 \<Rightarrow>
           (let req = req0\<lparr>ContentType := Some ''application/json''\<rparr>;
                (rep, w1) = send e req (Token c) w
            in case rep of
                 (None, err) \<Rightarrow> (Panic, w1)
               | (Some resp, Some err) \<Rightarrow>
                   (Failed (Wrapf err (''failed to execute GET request for '' @ url)), w1)
               | (Some resp, None) \<Rightarrow>
                   if StatusCode resp \<noteq> 200
                   then (Failed (New (''failed with status '' @ Status resp)), w1)
                   else (case decodeDashboard e (Body resp) of
                           Inl err \<Rightarrow>
                             (Failed (Wrapf err ''failed to decode response for dashboard''), w1)
                         | Inr d \<Rightarrow> (Done d, w1))))"

section \<open>The request each operation hands to \<open>doRequest\<close>\<close>

text \<open>
  The request \<open>Start\<close>, \<open>Finish\<close> and \<open>Update\<close> build before they call \<open>doRequest\<close>,
  written out once; the lemmas \<open>Start_unfold\<close>, \<open>Finish_unfold\<close> and \<open>Update_unfold\<close>
  show that the operations build exactly these.
\<close>

definition Start_request :: "env \<Rightarrow> world \<Rightarrow> addr \<Rightarrow> request" where
  "Start_request e w a =
    \<lparr>Method = ''POST'',
     URL = (case Parent (items w a) of
              Some p \<Rightarrow> Endpoint (client (items w a)) @ ''/'' @ Project (client (items w a))
                          @ ''/item/'' @ Id' (items w p)
            | None \<Rightarrow> Endpoint (client (items w a)) @ ''/'' @ Project (client (items w a))
                          @ ''/item''),
     ContentType = Some ''application/json'',
     ReqBody = Bytes (JSON (JObject
       [(''name'', JString (Name (items w a))),
        (''description'', JString (Description (items w a))),
        (''tags'', strings_json (Tags (items w a))),
        (''start_time'', JNumber (toTimestamp (Now e))),
        (''launch_id'', JString (Launch_Id (launch (items w a)))),
        (''type'', JString (Type (items w a))),
        (''parameters'', JNull)]))\<rparr>"

definition Finish_request :: "env \<Rightarrow> world \<Rightarrow> addr \<Rightarrow> string \<Rightarrow> request" where
  "Finish_request e w a status =
    \<lparr>Method = ''PUT'',
     URL = Endpoint (client (items w a)) @ ''/'' @ Project (client (items w a)) @ ''/item/''
             @ Id' (items w a),
     ContentType = Some ''application/json'',
     ReqBody = Bytes (JSON (JObject
       [(''end_time'', JNumber (toTimestamp (Now e))), (''status'', JString status)]))\<rparr>"

definition Update_request :: "world \<Rightarrow> addr \<Rightarrow> string \<Rightarrow> string list option \<Rightarrow> request" where
  "Update_request w a description tags =
    \<lparr>Method = ''PUT'',
     URL = Endpoint (client (items w a)) @ ''/'' @ Project (client (items w a)) @ ''/item/''
             @ Id' (items w a) @ ''/update'',
     ContentType = Some ''application/json'',
     ReqBody = Bytes (JSON (JObject
       [(''description'', JString description), (''tags'', strings_json tags)]))\<rparr>"

section \<open>A small reporting session\<close>

text \<open>
  The values the concrete checks below run on: a client, a launch, a suite at address 0
  (every other address but 1 holds a copy of it) and a test at address 1 whose parent
  is the suite; an outside world that parses every URL and gives one fixed reply.
\<close>

definition client0 :: Client where
  "client0 = \<lparr>Endpoint = ''https://rp.example.com/api/v1'', Token = ''secret'',
              Project = ''demo''\<rparr>"

definition launch0 :: Launch where
  "launch0 = \<lparr>Launch_Id = ''L1'', Launch_client = client0\<rparr>"

definition world0 :: world where
  "world0 =
    \<lparr>items = (\<lambda>a. NewTestItem launch0 ''Suite A'' ''nightly'' ''SUITE'' (Some [''smoke'']) None)
              (1 := NewTestItem launch0 ''Test 1'' '''' ''TEST'' None (Some 0)),
     sent = []\<rparr>"

definition env0 :: "reply \<Rightarrow> env" where
  "env0 r = \<lparr>Now = \<lparr>Unix = 1700000000, Nanosecond = 5000000\<rparr>, parseURL = (\<lambda>u. None),
             doRequest = (\<lambda>req token. r), randomBoundary = ''b0'',
             decodeDashboard = (\<lambda>b. Inr None)\<rparr>"

definition created :: "json \<Rightarrow> response" where
  "created j = \<lparr>StatusCode = 201, Status = ''201 Created'', Body = Document j\<rparr>"

definition refused :: reply where
  "refused = (None, Some (New ''dial tcp: connection refused''))"

definition reply_id :: "string \<Rightarrow> reply" where
  "reply_id i = (Some (created (JObject [(''id'', JString i)])), None)"

definition screenshot :: Attachment where
  "screenshot = \<lparr>Attachment_Name = ''shot.png'', Data = Some (Reader ''PNG'' None),
                 MimeType = ''image/png''\<rparr>"

text \<open>The session after the suite has been started and the service has named it \<open>abc\<close>.\<close>

definition world1 :: world where
  "world1 = snd (Start (env0 (reply_id ''abc'')) 0 world0)"

section \<open>The connection configuration, checked\<close>

lemma HasPrefix_append: "HasPrefix (p @ s) p"
  by (simp add: HasPrefix_def)

lemma HasSuffix_append: "HasSuffix (s @ x) x"
  by (simp add: HasSuffix_def)

lemma HasSuffix_append2: "HasSuffix (s @ t @ x) x"
  by (simp add: HasSuffix_def)

lemma HasPrefix_TrimSuffix: "HasPrefix (TrimSuffix s x) p \<Longrightarrow> HasPrefix s p"
proof (cases "HasSuffix s x")
  case False
  assume "HasPrefix (TrimSuffix s x) p"
  with False show ?thesis by (simp add: TrimSuffix_def)
next
  case True
  assume h: "HasPrefix (TrimSuffix s x) p"
  define t where "t = take (length s - length x) s"
  from True have s: "s = t @ x"
    by (simp add: HasSuffix_def t_def) (metis append_take_drop_id)
  from h True have "take (length p) t = p"
    by (simp add: HasPrefix_def TrimSuffix_def t_def)
  then have "take (length p) (t @ x) = p"
    by (metis append_eq_conv_conj append.assoc append_take_drop_id)
  with s show ?thesis by (simp add: HasPrefix_def)
qed

text \<open>
  C5, as amended. For a raw endpoint without \<open>http://\<close> or \<open>https://\<close> in front, the
  endpoint of the new client starts with \<open>https://\<close>. When the raw endpoint, one
  trailing slash removed, does not contain \<open>/api/v\<close>, the endpoint is \<open>https://\<close>, the
  trimmed raw endpoint and \<open>/api/v\<close> followed by the version in decimal, the version
  being 1 when the given one is below 1; so it ends with \<open>/api/v{N}\<close>. When the raw
  endpoint already contains \<open>/api/v\<close>, nothing is put behind it.
\<close>

theorem NewClient_endpoint:
  assumes "\<not> HasPrefix endpoint ''http://''" and "\<not> HasPrefix endpoint ''https://''"
  shows "HasPrefix (Endpoint (NewClient endpoint project token apiVersion)) ''https://''
    \<and> (\<not> Contains (TrimSuffix endpoint ''/'') ''/api/v'' \<longrightarrow>
         Endpoint (NewClient endpoint project token apiVersion) =
           ''https://'' @ TrimSuffix endpoint ''/'' @ ''/api/v''
             @ Itoa (if apiVersion < 1 then 1 else apiVersion)
         \<and> HasSuffix (Endpoint (NewClient endpoint project token apiVersion))
             (''/api/v'' @ Itoa (if apiVersion < 1 then 1 else apiVersion)))
    \<and> (Contains (TrimSuffix endpoint ''/'') ''/api/v'' \<longrightarrow>
         Endpoint (NewClient endpoint project token apiVersion) =
           ''https://'' @ TrimSuffix endpoint ''/'')"
proof -
  let ?t = "TrimSuffix endpoint ''/''"
  from assms have a: "\<not> HasPrefix ?t ''http://''" and b: "\<not> HasPrefix ?t ''https://''"
    using HasPrefix_TrimSuffix by blast+
  have suffix: "HasSuffix (''https://'' @ ?t @ ''/api/v'' @ Itoa n) (''/api/v'' @ Itoa n)" for n
    using HasSuffix_append2 [of "''https://''" ?t "''/api/v'' @ Itoa n"] by simp
  have pre1: "HasPrefix (''https://'' @ ?t) ''https://''"
    by (rule HasPrefix_append)
  have pre2: "HasPrefix (''https://'' @ ?t @ ''/api/v'' @ Itoa n) ''https://''" for n
    by (rule HasPrefix_append)
  show ?thesis
    using a b suffix pre1 pre2 by (simp add: NewClient_def Let_def)
qed

theorem NewClient_endpoint_witness:
  "\<not> HasPrefix ''rp.example.com/'' ''http://'' \<and> \<not> HasPrefix ''rp.example.com/'' ''https://''
   \<and> TrimSuffix ''rp.example.com/'' ''/'' = ''rp.example.com''
   \<and> \<not> Contains ''rp.example.com'' ''/api/v''
   \<and> Endpoint (NewClient ''rp.example.com/'' ''demo'' ''secret'' 0) = ''https://rp.example.com/api/v1''
   \<and> HasSuffix (Endpoint (NewClient ''rp.example.com/'' ''demo'' ''secret'' 0)) ''/api/v1''"
proof -
  have h1: "\<not> HasPrefix ''rp.example.com/'' ''http://''"
    by (simp add: HasPrefix_def)
  have h2: "\<not> HasPrefix ''rp.example.com/'' ''https://''"
    by (simp add: HasPrefix_def)
  have t: "TrimSuffix ''rp.example.com/'' ''/'' = ''rp.example.com''"
    by (simp add: TrimSuffix_def HasSuffix_def)
  have c: "\<not> Contains ''rp.example.com'' ''/api/v''"
    by (simp add: HasPrefix_def)
  have i: "Itoa 1 = ''1''"
    by (simp add: Itoa_def)
  from c NewClient_endpoint [OF h1 h2, of "''demo''" "''secret''" 0]
  have e: "Endpoint (NewClient ''rp.example.com/'' ''demo'' ''secret'' 0)
             = ''https://rp.example.com/api/v1''"
    by (simp add: t i)
  have s: "HasSuffix (Endpoint (NewClient ''rp.example.com/'' ''demo'' ''secret'' 0)) ''/api/v1''"
    by (simp add: e HasSuffix_def)
  from h1 h2 t c e s show ?thesis
    by blast
qed

text \<open>
  C5 as the spec states it fails: the raw endpoint \<open>example.com/api/v2\<close> has no scheme,
  the version asked for is 3, and the endpoint of the client does not end with
  \<open>/api/v3\<close>: it is \<open>https://example.com/api/v2\<close>.
\<close>

theorem NewClient_versioned_endpoint_counterexample:
  "\<not> HasPrefix ''example.com/api/v2'' ''http://''
   \<and> \<not> HasPrefix ''example.com/api/v2'' ''https://''
   \<and> Endpoint (NewClient ''example.com/api/v2'' ''demo'' ''secret'' 3) = ''https://example.com/api/v2''
   \<and> \<not> HasSuffix (Endpoint (NewClient ''example.com/api/v2'' ''demo'' ''secret'' 3))
         (''/api/v'' @ Itoa 3)"
  by (simp add: NewClient_def TrimSuffix_def HasSuffix_def HasPrefix_def Itoa_def)

section \<open>Each operation, by the reply it gets\<close>

lemmas library_defs = Marshal_def NewRequest_def send_def Let_def

lemma Start_unfold:
  "Start e a w =
    (case parseURL e (URL (Start_request e w a)) of
       Some err \<Rightarrow>
         (Failed (Wrapf err (''failed to create POST request to '' @ URL (Start_request e w a))), w)
     | None \<Rightarrow>
        (let w1 = w\<lparr>sent := sent w @ [(Start_request e w a, Token (client (items w a)))]\<rparr>
         in case doRequest e (Start_request e w a) (Token (client (items w a))) of
              (None, err) \<Rightarrow> (Panic, w1)
            | (Some resp, Some err) \<Rightarrow>
                (Failed (Wrapf err (''failed to execute POST request ''
                   @ URL (Start_request e w a))), w1)
            | (Some resp, None) \<Rightarrow>
                if StatusCode resp \<noteq> 201
                then (Failed (New (''failed with status '' @ Status resp)), w1)
                else (case Decode_id (Body resp) of
                        Inl err \<Rightarrow>
                          (Failed (Wrapf err (''failed to decode response from ''
                             @ URL (Start_request e w a))), w1)
                      | Inr v \<Rightarrow>
                          (Done (), w1\<lparr>items := (items w)(a := (items w a)\<lparr>Id' := v\<rparr>)\<rparr>))))"
proof (cases "parseURL e (URL (Start_request e w a))")
  case (Some err)
  then show ?thesis
    by (simp add: Start_def Start_request_def library_defs)
next
  case None
  show ?thesis
  proof (cases "doRequest e (Start_request e w a) (Token (client (items w a)))")
    case (Pair r err)
    with None show ?thesis
      by (cases r; cases err; cases "Decode_id (Body (the r))")
        (simp_all add: Start_def Start_request_def library_defs)
  qed
qed

lemma Finish_unfold:
  "Finish e a status w =
    (case parseURL e (URL (Finish_request e w a status)) of
       Some err \<Rightarrow>
         (Failed (Wrapf err (''failed to create PUT request to ''
            @ URL (Finish_request e w a status))), w)
     | None \<Rightarrow>
        (let w1 = w\<lparr>sent := sent w @ [(Finish_request e w a status, Token (client (items w a)))]\<rparr>
         in case doRequest e (Finish_request e w a status) (Token (client (items w a))) of
              (None, err) \<Rightarrow> (Panic, w1)
            | (Some resp, Some err) \<Rightarrow>
                (Failed (Wrapf err (''failed to execute PUT request to ''
                   @ URL (Finish_request e w a status))), w1)
            | (Some resp, None) \<Rightarrow>
                if StatusCode resp \<noteq> 200
                then (Failed (New (''failed with status '' @ Status resp)), w1)
                else (Done (), w1)))"
proof (cases "parseURL e (URL (Finish_request e w a status))")
  case (Some err)
  then show ?thesis
    by (simp add: Finish_def Finish_request_def library_defs)
next
  case None
  show ?thesis
  proof (cases "doRequest e (Finish_request e w a status) (Token (client (items w a)))")
    case (Pair r err)
    with None show ?thesis
      by (cases r; cases err) (simp_all add: Finish_def Finish_request_def library_defs)
  qed
qed

lemma Update_unfold:
  "Update e a description tags w =
    (case parseURL e (URL (Update_request w a description tags)) of
       Some err \<Rightarrow>
         (Failed (Wrapf err (''failed to create PUT request to ''
            @ URL (Update_request w a description tags))), w)
     | None \<Rightarrow>
        (let w1 = w\<lparr>sent := sent w
                    @ [(Update_request w a description tags, Token (client (items w a)))]\<rparr>
         in case doRequest e (Update_request w a description tags) (Token (client (items w a))) of
              (None, err) \<Rightarrow> (Panic, w1)
            | (Some resp, Some err) \<Rightarrow>
                (Failed (Wrapf err (''failed to execute PUT request to ''
                   @ URL (Update_request w a description tags))), w1)
            | (Some resp, None) \<Rightarrow>
                if StatusCode resp \<noteq> 200
                then (Failed (New (''failed with status '' @ Status resp)), w1)
                else (Done (), w1\<lparr>items := (items w)
                        (a := (items w a)\<lparr>Description := description, Tags := tags\<rparr>)\<rparr>)))"
proof (cases "parseURL e (URL (Update_request w a description tags))")
  case (Some err)
  then show ?thesis
    by (simp add: Update_def Update_request_def library_defs)
next
  case None
  show ?thesis
  proof (cases "doRequest e (Update_request w a description tags) (Token (client (items w a)))")
    case (Pair r err)
    with None show ?thesis
      by (cases r; cases err) (simp_all add: Update_def Update_request_def library_defs)
  qed
qed

lemma getReqForLog_unfold:
  "getReqForLog e ti message level =
    (case parseURL e (Endpoint (client ti) @ ''/'' @ Project (client ti) @ ''/log'') of
       Some err \<Rightarrow> Failed (Wrapf err (''failed to create POST request to ''
                     @ Endpoint (client ti) @ ''/'' @ Project (client ti) @ ''/log''))
     | None \<Rightarrow> Done
         \<lparr>Method = ''POST'',
          URL = Endpoint (client ti) @ ''/'' @ Project (client ti) @ ''/log'',
          ContentType = Some ''application/json'',
          ReqBody = Bytes (JSON (JObject
            [(''item_id'', JString (Id' ti)),
             (''message'', JString message),
             (''level'', JString level),
             (''time'', JNumber (toTimestamp (Now e)))]))\<rparr>)"
  by (cases "parseURL e (Endpoint (client ti) @ ''/'' @ Project (client ti) @ ''/log'')")
    (simp_all add: getReqForLog_def library_defs)

lemma getReqForLogWithAttach_unfold:
  "getReqForLogWithAttach e ti message level att =
    (case Data att of
       None \<Rightarrow> Panic
     | Some (Reader bytes (Some err)) \<Rightarrow> Failed (Wrapf err ''failed to copy file writer'')
     | Some (Reader bytes None) \<Rightarrow>
        (case parseURL e (Endpoint (client ti) @ ''/'' @ Project (client ti) @ ''/log'') of
           Some err \<Rightarrow> Failed (Wrapf err (''failed to create POST request to ''
                         @ Endpoint (client ti) @ ''/'' @ Project (client ti) @ ''/log''))
         | None \<Rightarrow> Done
             \<lparr>Method = ''POST'',
              URL = Endpoint (client ti) @ ''/'' @ Project (client ti) @ ''/log'',
              ContentType = Some (''multipart/form-data; boundary='' @ randomBoundary e),
              ReqBody = Multipart (randomBoundary e)
                [\<lparr>Header = [(''Content-Disposition'',
                               ''form-data; name='' @ quoted ''json_request_part''),
                             (''Content-Type'', ''application/json'')],
                  Content = JSON (JArray [JObject
                    [(''file'', JObject [(''name'', JString (Attachment_Name att))]),
                     (''item_id'', JString (Id' ti)),
                     (''level'', JString level),
                     (''message'', JString message),
                     (''time'', JNumber (toTimestamp (Now e)))]])\<rparr>,
                 \<lparr>Header = [(''Content-Disposition'',
                               ''form-data; name='' @ quoted ''file'' @ ''; filename=''
                                 @ quoted (Attachment_Name att)),
                             (''Content-Type'', MimeType att)],
                  Content = Raw bytes\<rparr>]\<rparr>))"
proof (cases "Data att")
  case None
  then show ?thesis
    by (simp add: getReqForLogWithAttach_def library_defs)
next
  case (Some rd)
  obtain bytes fail where rd: "rd = Reader bytes fail"
    by (cases rd)
  show ?thesis
    by (cases fail; cases "parseURL e (Endpoint (client ti) @ ''/'' @ Project (client ti) @ ''/log'')")
      (simp_all add: Some rd getReqForLogWithAttach_def library_defs)
qed

section \<open>Start\<close>

lemma Start_sent:
  "sent (snd (Start e a w)) =
    (if parseURL e (URL (Start_request e w a)) = None
     then sent w @ [(Start_request e w a, Token (client (items w a)))] else sent w)"
proof (cases "parseURL e (URL (Start_request e w a))")
  case (Some err)
  then show ?thesis
    by (simp add: Start_unfold)
next
  case None
  show ?thesis
  proof (cases "doRequest e (Start_request e w a) (Token (client (items w a)))")
    case (Pair r err)
    with None show ?thesis
      by (cases r; cases err; cases "Decode_id (Body (the r))")
        (simp_all add: Start_unfold Let_def)
  qed
qed

lemma Start_sent_req:
  assumes "sent (snd (Start e a w)) = sent w @ [(req, token)]"
  shows "parseURL e (URL (Start_request e w a)) = None \<and> req = Start_request e w a
         \<and> token = Token (client (items w a))"
  using assms by (simp add: Start_sent split: if_splits)

text \<open>
  What holds of \<open>Start\<close> when \<open>doRequest\<close> returns a response, with or without an
  error: the error, any status but 201 and a body that does not decode make \<open>Start\<close>
  return an error and leave every entity as it was; status 201 with a body that decodes
  stores the decoded id and nothing else.
\<close>

lemma Start_with_response:
  assumes "sent (snd (Start e a w)) = sent w @ [(req, token)]"
    and "doRequest e req token = (Some resp, err)"
  shows "(err = None \<and> StatusCode resp = 201 \<and> Decode_id (Body resp) = Inr v \<longrightarrow>
            fst (Start e a w) = Done ()
            \<and> items (snd (Start e a w)) = (items w)(a := (items w a)\<lparr>Id' := v\<rparr>))
       \<and> (err \<noteq> None \<or> StatusCode resp \<noteq> 201 \<or> (\<exists>x. Decode_id (Body resp) = Inl x) \<longrightarrow>
            (\<exists>x. fst (Start e a w) = Failed x) \<and> items (snd (Start e a w)) = items w)"
  using Start_sent_req [OF assms(1)] assms(2)
  by (cases err; cases "Decode_id (Body resp)") (auto simp: Start_unfold Let_def)

lemma Start_without_request:
  assumes "sent (snd (Start e a w)) = sent w"
  shows "(\<exists>x. fst (Start e a w) = Failed x) \<and> snd (Start e a w) = w"
proof (cases "parseURL e (URL (Start_request e w a))")
  case (Some err)
  then show ?thesis
    by (simp add: Start_unfold)
next
  case None
  with assms show ?thesis
    by (simp add: Start_sent)
qed

text \<open>
  C1 fails on the code. When \<open>doRequest\<close> returns a nil response, as it does with the
  error of a transport failure, \<open>Start\<close> does not return a descriptive error: the
  deferred \<open>resp.Body.Close()\<close> is set up before the error is tested and panics on the
  nil response. No entity is changed on the way.
\<close>

theorem Start_panics_on_nil_response:
  assumes "sent (snd (Start e a w)) = sent w @ [(req, token)]"
    and "doRequest e req token = (None, err)"
  shows "fst (Start e a w) = Panic \<and> items (snd (Start e a w)) = items w"
  using Start_sent_req [OF assms(1)] assms(2) by (simp add: Start_unfold)

theorem Start_panics_on_nil_response_witness:
  "fst (Start (env0 refused) 1 world0) = Panic
   \<and> items (snd (Start (env0 refused) 1 world0)) = items world0"
proof -
  have p: "parseURL (env0 refused) u = None" for u
    by (simp add: env0_def)
  have s: "sent (snd (Start (env0 refused) 1 world0)) = sent world0
             @ [(Start_request (env0 refused) world0 1, Token (client (items world0 1)))]"
    by (simp add: Start_sent p)
  have r: "doRequest (env0 refused) req token = (None, Some (New ''dial tcp: connection refused''))"
    for req token
    by (simp add: env0_def refused_def)
  show ?thesis
    using Start_panics_on_nil_response [OF s r] by simp
qed

text \<open>
  C4. \<open>Start\<close> builds its request for \<open>{endpoint}/{project}/item\<close> when the entity has no
  parent and for \<open>{endpoint}/{project}/item/{parentId}\<close>, with the \<open>Id\<close> the parent has at
  that moment, when it has one. When \<open>http.NewRequest\<close> takes the URL, that request is
  the one request handed to \<open>doRequest\<close>, a POST; when it does not, \<open>Start\<close> returns the
  error with the same URL in its message and nothing is sent.
\<close>

theorem Start_target:
  assumes "target = (case Parent (items w a) of
             None \<Rightarrow> Endpoint (client (items w a)) @ ''/'' @ Project (client (items w a))
                       @ ''/item''
           | Some p \<Rightarrow> Endpoint (client (items w a)) @ ''/'' @ Project (client (items w a))
                       @ ''/item/'' @ Id' (items w p))"
  shows "(parseURL e target = None \<longrightarrow>
            (\<exists>req. sent (snd (Start e a w)) = sent w @ [(req, Token (client (items w a)))]
                   \<and> Method req = ''POST'' \<and> URL req = target))
       \<and> (\<forall>err. parseURL e target = Some err \<longrightarrow>
            Start e a w = (Failed (Wrapf err (''failed to create POST request to '' @ target)), w))"
proof -
  have t: "URL (Start_request e w a) = target"
    by (simp add: Start_request_def assms)
  have m: "Method (Start_request e w a) = ''POST''"
    by (simp add: Start_request_def)
  have sends: "parseURL e target = None \<longrightarrow>
      (\<exists>req. sent (snd (Start e a w)) = sent w @ [(req, Token (client (items w a)))]
             \<and> Method req = ''POST'' \<and> URL req = target)"
    using t m by (auto simp: Start_sent)
  have fails: "\<forall>err. parseURL e target = Some err \<longrightarrow>
      Start e a w = (Failed (Wrapf err (''failed to create POST request to '' @ target)), w)"
    using t by (simp add: Start_unfold)
  from sends fails show ?thesis
    by (rule conjI)
qed

lemmas session_defs = world0_def NewTestItem_def launch0_def client0_def

lemma env0_simps:
  "parseURL (env0 r) u = None" "doRequest (env0 r) req token = r"
  "Now (env0 r) = \<lparr>Unix = 1700000000, Nanosecond = 5000000\<rparr>" "randomBoundary (env0 r) = ''b0''"
  by (simp_all add: env0_def)

lemma Decode_id_reply_id:
  "Decode_id (Body (created (JObject [(''id'', JString i)]))) = Inr i"
  by (simp add: created_def Decode_id_def key_is_id_def)

lemma Start_reply_id:
  "fst (Start (env0 (reply_id i)) a w) = Done ()
   \<and> items (snd (Start (env0 (reply_id i)) a w)) = (items w)(a := (items w a)\<lparr>Id' := i\<rparr>)
   \<and> sent (snd (Start (env0 (reply_id i)) a w))
       = sent w @ [(Start_request (env0 (reply_id i)) w a, Token (client (items w a)))]"
  by (simp add: Start_unfold env0_simps reply_id_def Decode_id_reply_id Let_def)
    (simp add: created_def)

lemma world1_items:
  "items world1 = (items world0)(0 := (items world0 0)\<lparr>Id' := ''abc''\<rparr>)"
  by (simp add: world1_def Start_reply_id)

theorem Start_target_witness:
  "(\<exists>req. sent (snd (Start (env0 (reply_id ''abc'')) 0 world0)) = sent world0 @ [(req, ''secret'')]
          \<and> Method req = ''POST'' \<and> URL req = ''https://rp.example.com/api/v1/demo/item'')
   \<and> (\<exists>req. sent (snd (Start (env0 (reply_id ''t1'')) 1 world1)) = sent world1 @ [(req, ''secret'')]
          \<and> Method req = ''POST'' \<and> URL req = ''https://rp.example.com/api/v1/demo/item/abc'')"
proof -
  have root: "''https://rp.example.com/api/v1/demo/item'' =
      (case Parent (items world0 0) of
         None \<Rightarrow> Endpoint (client (items world0 0)) @ ''/'' @ Project (client (items world0 0))
                   @ ''/item''
       | Some p \<Rightarrow> Endpoint (client (items world0 0)) @ ''/'' @ Project (client (items world0 0))
                   @ ''/item/'' @ Id' (items world0 p))"
    by (simp add: session_defs)
  have child: "''https://rp.example.com/api/v1/demo/item/abc'' =
      (case Parent (items world1 1) of
         None \<Rightarrow> Endpoint (client (items world1 1)) @ ''/'' @ Project (client (items world1 1))
                   @ ''/item''
       | Some p \<Rightarrow> Endpoint (client (items world1 1)) @ ''/'' @ Project (client (items world1 1))
                   @ ''/item/'' @ Id' (items world1 p))"
    by (simp add: world1_items session_defs)
  have t0: "Token (client (items world0 0)) = ''secret''"
    by (simp add: session_defs)
  have t1: "Token (client (items world1 (Suc 0))) = ''secret''"
    by (simp add: world1_items session_defs)
  from Start_target [OF root, of "env0 (reply_id ''abc'')"]
       Start_target [OF child, of "env0 (reply_id ''t1'')"]
  show ?thesis
    by (simp add: env0_simps t0 t1)
qed

lemma object_id_no_key:
  "\<forall>k \<in> set (map fst kvs). \<not> key_is_id k \<Longrightarrow> object_id kvs acc = acc"
proof (induction kvs arbitrary: acc)
  case Nil
  then show ?case by simp
next
  case (Cons kv kvs)
  obtain k v where kv: "kv = (k, v)" by (cases kv)
  obtain cur saved where acc: "acc = (cur, saved)" by (cases acc)
  from Cons show ?case by (simp add: kv acc)
qed

text \<open>
  C10, as amended. When \<open>Start\<close> gets status 201 and a body that is a JSON object none
  of whose keys is \<open>id\<close> in any letter case (the object \<open>{}\<close>, for one), it returns no
  error and the entity's \<open>Id\<close> is the empty string afterwards: a \<open>Start\<close> that succeeds
  need not leave an \<open>Id\<close> that is not empty.
\<close>

theorem Start_created_without_id:
  assumes "sent (snd (Start e a w)) = sent w @ [(req, token)]"
    and "doRequest e req token = (Some resp, None)"
    and "StatusCode resp = 201"
    and "Body resp = Document (JObject kvs)"
    and "\<forall>k \<in> set (map fst kvs). \<not> key_is_id k"
  shows "fst (Start e a w) = Done () \<and> Id' (items (snd (Start e a w)) a) = ''''"
proof -
  have d: "Decode_id (Body resp) = Inr ''''"
    using assms(4,5) by (simp add: Decode_id_def object_id_no_key)
  from Start_sent_req [OF assms(1)] assms(2,3) d show ?thesis
    by (simp add: Start_unfold)
qed

theorem Start_created_without_id_witness:
  "fst (Start (env0 (Some (created (JObject [])), None)) 0 world0) = Done ()
   \<and> Id' (items (snd (Start (env0 (Some (created (JObject [])), None)) 0 world0)) 0) = ''''
   \<and> fst (Start (env0 (Some (created (JObject [(''name'', JString ''Suite A'')])), None)) 0 world1)
       = Done ()
   \<and> Id' (items world1 0) = ''abc''
   \<and> Id' (items (snd (Start (env0 (Some (created (JObject [(''name'', JString ''Suite A'')])),
         None)) 0 world1)) 0) = ''''"
proof -
  let ?e = "env0 (Some (created (JObject [])), None)"
  let ?e' = "env0 (Some (created (JObject [(''name'', JString ''Suite A'')])), None)"
  have s: "sent (snd (Start ?e 0 world0)) = sent world0
             @ [(Start_request ?e world0 0, Token (client (items world0 0)))]"
    by (simp add: Start_sent env0_simps)
  have s': "sent (snd (Start ?e' 0 world1)) = sent world1
             @ [(Start_request ?e' world1 0, Token (client (items world1 0)))]"
    by (simp add: Start_sent env0_simps)
  have k: "\<forall>k \<in> set (map fst ([] :: (string \<times> json) list)). \<not> key_is_id k"
    by simp
  have k': "\<forall>k \<in> set (map fst [(''name'', JString ''Suite A'')]). \<not> key_is_id k"
    by (simp add: key_is_id_def)
  have c: "StatusCode (created j) = 201" "Body (created j) = Document j" for j
    by (simp_all add: created_def)
  have i: "Id' (items world1 0) = ''abc''"
    by (simp add: world1_items)
  from Start_created_without_id [OF s env0_simps(2) c k]
       Start_created_without_id [OF s' env0_simps(2) c k'] i
  show ?thesis
    by blast
qed

text \<open>
  C10 as the spec states it fails. The body \<open>[]\<close> is valid JSON without an \<open>id\<close> field:
  with status 201 \<open>Start\<close> does not return success, it returns the error of the
  decoder, which cannot store an array in the structure. The body \<open>{"ID":"x"}\<close> has no
  member \<open>id\<close> either: \<open>Start\<close> succeeds and the \<open>Id\<close> is \<open>x\<close>, not empty, since the
  decoder takes the key in any letter case.
\<close>

theorem Start_created_without_id_field_counterexample:
  "fst (Start (env0 (Some (created (JArray [])), None)) 0 world0) \<noteq> Done ()
   \<and> fst (Start (env0 (Some (created (JArray [])), None)) 0 world0) =
       Failed (Wrapf (New ''json: cannot unmarshal into Go value of type struct'')
         ''failed to decode response from https://rp.example.com/api/v1/demo/item'')
   \<and> fst (Start (env0 (Some (created (JObject [(''ID'', JString ''x'')])), None)) 0 world0) = Done ()
   \<and> Id' (items (snd (Start (env0 (Some (created (JObject [(''ID'', JString ''x'')])), None)) 0
         world0)) 0) = ''x''"
proof -
  have c: "StatusCode (created j) = 201" "Body (created j) = Document j" for j
    by (simp_all add: created_def)
  have arr: "Decode_id (Document (JArray [])) =
      Inl (New ''json: cannot unmarshal into Go value of type struct'')"
    by (simp add: Decode_id_def)
  have obj: "Decode_id (Document (JObject [(''ID'', JString ''x'')])) = Inr ''x''"
    by (simp add: Decode_id_def key_is_id_def)
  have u: "URL (Start_request e world0 0) = ''https://rp.example.com/api/v1/demo/item''" for e
    by (simp add: Start_request_def session_defs)
  show ?thesis
    by (simp add: Start_unfold env0_simps c arr obj u Let_def)
qed

section \<open>Finish, Log and Update\<close>

lemma Finish_items: "items (snd (Finish e a status w)) = items w"
proof (cases "parseURL e (URL (Finish_request e w a status))")
  case (Some err)
  then show ?thesis
    by (simp add: Finish_unfold)
next
  case None
  show ?thesis
  proof (cases "doRequest e (Finish_request e w a status) (Token (client (items w a)))")
    case (Pair r err)
    with None show ?thesis
      by (cases r; cases err) (simp_all add: Finish_unfold Let_def)
  qed
qed

lemma Log_items: "items (snd (Log e a message level attachment w)) = items w"
proof -
  define got where "got = (case attachment of
      Some att \<Rightarrow> getReqForLogWithAttach e (items w a) message level att
    | None \<Rightarrow> getReqForLog e (items w a) message level)"
  show ?thesis
  proof (cases got)
    case Panic
    then show ?thesis
      by (simp add: Log_def got_def)
  next
    case (Failed err)
    then show ?thesis
      by (simp add: Log_def got_def)
  next
    case (Done req)
    show ?thesis
    proof (cases "doRequest e req (Token (client (items w a)))")
      case (Pair r err)
      with Done show ?thesis
        by (cases r; cases err) (simp_all add: Log_def got_def send_def Let_def)
    qed
  qed
qed

lemma Update_sent:
  "sent (snd (Update e a description tags w)) =
    (if parseURL e (URL (Update_request w a description tags)) = None
     then sent w @ [(Update_request w a description tags, Token (client (items w a)))]
     else sent w)"
proof (cases "parseURL e (URL (Update_request w a description tags))")
  case (Some err)
  then show ?thesis
    by (simp add: Update_unfold)
next
  case None
  show ?thesis
  proof (cases "doRequest e (Update_request w a description tags) (Token (client (items w a)))")
    case (Pair r err)
    with None show ?thesis
      by (cases r; cases err) (simp_all add: Update_unfold Let_def)
  qed
qed

lemma Update_sent_req:
  assumes "sent (snd (Update e a description tags w)) = sent w @ [(req, token)]"
  shows "parseURL e (URL (Update_request w a description tags)) = None
         \<and> req = Update_request w a description tags \<and> token = Token (client (items w a))"
  using assms by (simp add: Update_sent split: if_splits)

lemma Update_Id: "Id' (items (snd (Update e a description tags w)) b) = Id' (items w b)"
proof (cases "parseURL e (URL (Update_request w a description tags))")
  case (Some err)
  then show ?thesis
    by (simp add: Update_unfold)
next
  case None
  show ?thesis
  proof (cases "doRequest e (Update_request w a description tags) (Token (client (items w a)))")
    case (Pair r err)
    with None show ?thesis
      by (cases r; cases err) (simp_all add: Update_unfold Let_def)
  qed
qed

text \<open>
  What holds of \<open>Update\<close> when \<open>doRequest\<close> returns a response, and when no request is
  made: with a nil error and status 200 it returns no error and the description and
  the tags of the entity are the given ones, nothing else being changed; with an error
  or another status, and when the URL does not parse, it returns an error and every
  entity is as it was.
\<close>

lemma Update_with_response:
  assumes "sent (snd (Update e a description tags w)) = sent w @ [(req, token)]"
    and "doRequest e req token = (Some resp, err)"
  shows "(err = None \<and> StatusCode resp = 200 \<longrightarrow>
            fst (Update e a description tags w) = Done ()
            \<and> items (snd (Update e a description tags w)) =
                (items w)(a := (items w a)\<lparr>Description := description, Tags := tags\<rparr>))
       \<and> (err \<noteq> None \<or> StatusCode resp \<noteq> 200 \<longrightarrow>
            (\<exists>x. fst (Update e a description tags w) = Failed x)
            \<and> items (snd (Update e a description tags w)) = items w)"
  using Update_sent_req [OF assms(1)] assms(2)
  by (cases err) (auto simp: Update_unfold Let_def)

lemma Update_without_request:
  assumes "sent (snd (Update e a description tags w)) = sent w"
  shows "(\<exists>x. fst (Update e a description tags w) = Failed x)
         \<and> snd (Update e a description tags w) = w"
proof (cases "parseURL e (URL (Update_request w a description tags))")
  case (Some err)
  then show ?thesis
    by (simp add: Update_unfold)
next
  case None
  with assms show ?thesis
    by (simp add: Update_sent)
qed

text \<open>
  C3 fails on the code. When \<open>doRequest\<close> returns a nil response, as it does with the
  error of a transport failure, \<open>Update\<close> does not return an error: the deferred
  \<open>resp.Body.Close()\<close> is set up before the error is tested and panics on the nil
  response. No entity is changed on the way.
\<close>

theorem Update_panics_on_nil_response:
  assumes "sent (snd (Update e a description tags w)) = sent w @ [(req, token)]"
    and "doRequest e req token = (None, err)"
  shows "fst (Update e a description tags w) = Panic
         \<and> items (snd (Update e a description tags w)) = items w"
  using Update_sent_req [OF assms(1)] assms(2) by (simp add: Update_unfold)

theorem Update_panics_on_nil_response_witness:
  "fst (Update (env0 refused) 0 ''weekly'' (Some [''slow'']) world1) = Panic
   \<and> items (snd (Update (env0 refused) 0 ''weekly'' (Some [''slow'']) world1)) = items world1"
proof -
  have s: "sent (snd (Update (env0 refused) 0 ''weekly'' (Some [''slow'']) world1)) = sent world1
      @ [(Update_request world1 0 ''weekly'' (Some [''slow'']), Token (client (items world1 0)))]"
    by (simp add: Update_sent env0_simps)
  have r: "doRequest (env0 refused) req token = (None, Some (New ''dial tcp: connection refused''))"
    for req token
    by (simp add: env0_simps refused_def)
  show ?thesis
    using Update_panics_on_nil_response [OF s r] by simp
qed

section \<open>The identifier and the start time of an entity\<close>

lemma Start_Id_other:
  "fst (Start e a w) \<noteq> Done () \<or> b \<noteq> a \<Longrightarrow>
     Id' (items (snd (Start e a w)) b) = Id' (items w b)"
proof (cases "parseURL e (URL (Start_request e w a))")
  case (Some err)
  then show ?thesis
    by (simp add: Start_unfold)
next
  case None
  assume h: "fst (Start e a w) \<noteq> Done () \<or> b \<noteq> a"
  show ?thesis
  proof (cases "doRequest e (Start_request e w a) (Token (client (items w a)))")
    case (Pair r err)
    with None h show ?thesis
      by (cases r; cases err; cases "Decode_id (Body (the r))")
        (auto simp: Start_unfold Let_def)
  qed
qed

lemma Start_Done:
  assumes "fst (Start e a w) = Done ()"
  shows "\<exists>resp. doRequest e (Start_request e w a) (Token (client (items w a))) = (Some resp, None)
           \<and> sent (snd (Start e a w))
               = sent w @ [(Start_request e w a, Token (client (items w a)))]
           \<and> StatusCode resp = 201
           \<and> Decode_id (Body resp) = Inr (Id' (items (snd (Start e a w)) a))"
proof (cases "parseURL e (URL (Start_request e w a))")
  case (Some err)
  with assms show ?thesis
    by (simp add: Start_unfold)
next
  case None
  show ?thesis
  proof (cases "doRequest e (Start_request e w a) (Token (client (items w a)))")
    case (Pair r err)
    with None assms show ?thesis
      by (cases r; cases err; cases "Decode_id (Body (the r))")
        (auto simp: Start_unfold Let_def split: if_splits)
  qed
qed

lemma Start_StartTime: "StartTime (items (snd (Start e a w)) b) = StartTime (items w b)"
proof (cases "parseURL e (URL (Start_request e w a))")
  case (Some err)
  then show ?thesis
    by (simp add: Start_unfold)
next
  case None
  show ?thesis
  proof (cases "doRequest e (Start_request e w a) (Token (client (items w a)))")
    case (Pair r err)
    with None show ?thesis
      by (cases r; cases err; cases "Decode_id (Body (the r))")
        (auto simp: Start_unfold Let_def)
  qed
qed

text \<open>
  C7, as amended. The \<open>Id\<close> of an entity made by \<open>NewTestItem\<close> is empty. \<open>Finish\<close>, \<open>Log\<close>
  and \<open>Update\<close> leave the \<open>Id\<close> of every entity as it is, and so does a \<open>Start\<close> that does
  not return success; a \<open>Start\<close> of one entity leaves the \<open>Id\<close> of every other entity as
  it is. A \<open>Start\<close> that returns success, the first or a later one, has got status 201
  and sets the \<open>Id\<close> of its entity to the id decoded from that response.
\<close>

theorem Id_written_only_by_successful_Start:
  "Id' (NewTestItem l name description itemType tags parent) = ''''
   \<and> Id' (items (snd (Finish e a status w)) b) = Id' (items w b)
   \<and> Id' (items (snd (Log e a message level attachment w)) b) = Id' (items w b)
   \<and> Id' (items (snd (Update e a description' tags' w)) b) = Id' (items w b)
   \<and> (fst (Start e a w) \<noteq> Done () \<or> b \<noteq> a \<longrightarrow>
        Id' (items (snd (Start e a w)) b) = Id' (items w b))
   \<and> (fst (Start e a w) = Done () \<longrightarrow>
        (\<exists>req token resp.
            sent (snd (Start e a w)) = sent w @ [(req, token)]
          \<and> doRequest e req token = (Some resp, None)
          \<and> StatusCode resp = 201
          \<and> Decode_id (Body resp) = Inr (Id' (items (snd (Start e a w)) a))))"
proof -
  have fresh: "Id' (NewTestItem l name description itemType tags parent) = ''''"
    by (simp add: NewTestItem_def)
  have succ: "fst (Start e a w) = Done () \<longrightarrow>
        (\<exists>req token resp.
            sent (snd (Start e a w)) = sent w @ [(req, token)]
          \<and> doRequest e req token = (Some resp, None)
          \<and> StatusCode resp = 201
          \<and> Decode_id (Body resp) = Inr (Id' (items (snd (Start e a w)) a)))"
    using Start_Done [of e a w] by blast
  from fresh succ show ?thesis
    by (simp add: Finish_items Log_items Update_Id Start_Id_other)
qed

theorem Id_written_only_by_successful_Start_witness:
  "Id' (NewTestItem launch0 ''Suite A'' ''nightly'' ''SUITE'' (Some [''smoke'']) None) = ''''
   \<and> Id' (items world1 0) = ''abc''
   \<and> Id' (items (snd (Finish (env0 refused) 0 ''PASSED'' world1)) 0) = ''abc''
   \<and> Id' (items (snd (Log (env0 refused) 0 ''boom'' ''error'' None world1)) 0) = ''abc''
   \<and> Id' (items (snd (Update (env0 refused) 0 ''weekly'' None world1)) 0) = ''abc''
   \<and> fst (Start (env0 refused) 0 world1) \<noteq> Done ()
   \<and> Id' (items (snd (Start (env0 refused) 0 world1)) 0) = ''abc''
   \<and> fst (Start (env0 (reply_id ''xyz'')) 1 world1) = Done ()
   \<and> Id' (items (snd (Start (env0 (reply_id ''xyz'')) 1 world1)) 0) = ''abc''
   \<and> Decode_id (Body (created (JObject [(''id'', JString ''xyz'')])))
       = Inr (Id' (items (snd (Start (env0 (reply_id ''xyz'')) 1 world1)) 1))"
proof -
  have i: "Id' (items world1 0) = ''abc''"
    by (simp add: world1_items)
  have p: "fst (Start (env0 refused) 0 world1) = Panic"
    by (simp add: Start_unfold env0_simps refused_def)
  have d: "fst (Start (env0 (reply_id ''xyz'')) 1 world1) = Done ()"
    by (simp add: Start_reply_id)
  note t = Id_written_only_by_successful_Start
    [of launch0 "''Suite A''" "''nightly''" "''SUITE''" "Some [''smoke'']" None
        "env0 refused" 0 "''PASSED''" world1 0 "''boom''" "''error''" None "''weekly''" None]
  note t' = Id_written_only_by_successful_Start
    [of launch0 "''Suite A''" "''nightly''" "''SUITE''" "Some [''smoke'']" None
        "env0 (reply_id ''xyz'')" 1 "''PASSED''" world1 0 "''boom''" "''error''" None "''weekly''" None]
  from t p have unchanged:
    "Id' (NewTestItem launch0 ''Suite A'' ''nightly'' ''SUITE'' (Some [''smoke'']) None) = ''''"
    "Id' (items (snd (Finish (env0 refused) 0 ''PASSED'' world1)) 0) = Id' (items world1 0)"
    "Id' (items (snd (Log (env0 refused) 0 ''boom'' ''error'' None world1)) 0) = Id' (items world1 0)"
    "Id' (items (snd (Update (env0 refused) 0 ''weekly'' None world1)) 0) = Id' (items world1 0)"
    "Id' (items (snd (Start (env0 refused) 0 world1)) 0) = Id' (items world1 0)"
    by simp_all
  from t' have other:
    "Id' (items (snd (Start (env0 (reply_id ''xyz'')) 1 world1)) 0) = Id' (items world1 0)"
    by simp
  from t' d obtain req token resp where
    "doRequest (env0 (reply_id ''xyz'')) req token = (Some resp, None)"
    "Decode_id (Body resp) = Inr (Id' (items (snd (Start (env0 (reply_id ''xyz'')) 1 world1)) 1))"
    by blast
  then have decoded: "Decode_id (Body (created (JObject [(''id'', JString ''xyz'')])))
       = Inr (Id' (items (snd (Start (env0 (reply_id ''xyz'')) 1 world1)) 1))"
    by (simp add: env0_simps reply_id_def)
  from unchanged other decoded i p d show ?thesis
    by simp
qed

text \<open>
  C7 as the spec states it fails: the suite is started and named \<open>abc\<close>; a second
  \<open>Start\<close> of the same entity, answered with 201 and the id \<open>xyz\<close>, succeeds and the
  \<open>Id\<close> is \<open>xyz\<close> afterwards.
\<close>

theorem Id_overwritten_by_second_Start_counterexample:
  "fst (Start (env0 (reply_id ''abc'')) 0 world0) = Done ()
   \<and> Id' (items (snd (Start (env0 (reply_id ''abc'')) 0 world0)) 0) = ''abc''
   \<and> fst (Start (env0 (reply_id ''xyz'')) 0
            (snd (Start (env0 (reply_id ''abc'')) 0 world0))) = Done ()
   \<and> Id' (items (snd (Start (env0 (reply_id ''xyz'')) 0
                   (snd (Start (env0 (reply_id ''abc'')) 0 world0)))) 0) = ''xyz''"
  by (simp add: Start_reply_id)

text \<open>
  C9, as amended. \<open>Start\<close> never writes the \<open>StartTime\<close> field: whatever the outcome,
  every entity has the \<open>StartTime\<close> it had. The wall clock of the call is transmitted
  instead: the body of the request \<open>Start\<close> hands to \<open>doRequest\<close> is a JSON object whose
  member \<open>start_time\<close> is the clock reading in epoch milliseconds, and a \<open>Start\<close> that
  returns success has handed over that request.
\<close>

theorem Start_keeps_StartTime_and_sends_start_time:
  "StartTime (items (snd (Start e a w)) b) = StartTime (items w b)
   \<and> (\<forall>req token. sent (snd (Start e a w)) = sent w @ [(req, token)] \<longrightarrow>
        (\<exists>members. ReqBody req = Bytes (JSON (JObject members))
           \<and> map_of members ''start_time'' = Some (JNumber (toTimestamp (Now e)))))
   \<and> (fst (Start e a w) = Done () \<longrightarrow>
        (\<exists>req token. sent (snd (Start e a w)) = sent w @ [(req, token)]))"
proof -
  have body: "\<exists>members. ReqBody (Start_request e w a) = Bytes (JSON (JObject members))
      \<and> map_of members ''start_time'' = Some (JNumber (toTimestamp (Now e)))"
    by (simp add: Start_request_def)
  have carried: "\<forall>req token. sent (snd (Start e a w)) = sent w @ [(req, token)] \<longrightarrow>
        (\<exists>members. ReqBody req = Bytes (JSON (JObject members))
           \<and> map_of members ''start_time'' = Some (JNumber (toTimestamp (Now e))))"
    using body Start_sent_req [of e a w] by blast
  have handed: "fst (Start e a w) = Done () \<longrightarrow>
        (\<exists>req token. sent (snd (Start e a w)) = sent w @ [(req, token)])"
    using Start_Done [of e a w] by blast
  from carried handed show ?thesis
    by (simp add: Start_StartTime)
qed

theorem Start_keeps_StartTime_and_sends_start_time_witness:
  "fst (Start (env0 (reply_id ''abc'')) 0 world0) = Done ()
   \<and> StartTime (items (snd (Start (env0 (reply_id ''abc'')) 0 world0)) 0) = zeroTime
   \<and> (\<exists>req token members.
         sent (snd (Start (env0 (reply_id ''abc'')) 0 world0)) = sent world0 @ [(req, token)]
       \<and> ReqBody req = Bytes (JSON (JObject members))
       \<and> map_of members ''start_time'' = Some (JNumber 1700000000005))"
proof -
  have d: "fst (Start (env0 (reply_id ''abc'')) 0 world0) = Done ()"
    by (simp add: Start_reply_id)
  have z: "StartTime (items world0 0) = zeroTime"
    by (simp add: session_defs)
  have n: "toTimestamp (Now (env0 (reply_id ''abc''))) = 1700000000005"
    by (simp add: env0_simps toTimestamp_def int64_def)
  note t = Start_keeps_StartTime_and_sends_start_time [of "env0 (reply_id ''abc'')" 0 world0 0]
  from t z have kept:
    "StartTime (items (snd (Start (env0 (reply_id ''abc'')) 0 world0)) 0) = zeroTime"
    by simp
  from t d obtain req token where
    s: "sent (snd (Start (env0 (reply_id ''abc'')) 0 world0)) = sent world0 @ [(req, token)]"
    by blast
  with t obtain members where
    "ReqBody req = Bytes (JSON (JObject members))"
    "map_of members ''start_time'' = Some (JNumber (toTimestamp (Now (env0 (reply_id ''abc'')))))"
    by blast
  with s n have "\<exists>req token members.
         sent (snd (Start (env0 (reply_id ''abc'')) 0 world0)) = sent world0 @ [(req, token)]
       \<and> ReqBody req = Bytes (JSON (JObject members))
       \<and> map_of members ''start_time'' = Some (JNumber 1700000000005)"
    by auto
  with d kept show ?thesis
    by blast
qed

text \<open>
  C9 as the spec states it fails on both counts. The suite is started at the clock
  reading 1700000000 s and 5 ms and \<open>Start\<close> succeeds: the \<open>StartTime\<close> of the entity is
  still the zero time, not the clock reading, and the body handed to \<open>doRequest\<close>
  carries \<open>start_time\<close> 1700000000005.
\<close>

theorem Start_time_counterexample:
  "fst (Start (env0 (reply_id ''abc'')) 0 world0) = Done ()
   \<and> StartTime (items (snd (Start (env0 (reply_id ''abc'')) 0 world0)) 0)
       \<noteq> Now (env0 (reply_id ''abc''))
   \<and> map (ReqBody \<circ> fst) (sent (snd (Start (env0 (reply_id ''abc'')) 0 world0))) =
       [Bytes (JSON (JObject
          [(''name'', JString ''Suite A''),
           (''description'', JString ''nightly''),
           (''tags'', JArray [JString ''smoke'']),
           (''start_time'', JNumber 1700000000005),
           (''launch_id'', JString ''L1''),
           (''type'', JString ''SUITE''),
           (''parameters'', JNull)]))]"
proof -
  have n: "toTimestamp (Now (env0 r)) = 1700000000005" for r
    by (simp add: env0_simps toTimestamp_def int64_def)
  have t: "StartTime (items world0 0) \<noteq> Now (env0 r)" for r
    by (simp add: session_defs env0_simps zeroTime_def)
  have b: "ReqBody (Start_request (env0 r) world0 0) =
       Bytes (JSON (JObject
          [(''name'', JString ''Suite A''),
           (''description'', JString ''nightly''),
           (''tags'', JArray [JString ''smoke'']),
           (''start_time'', JNumber 1700000000005),
           (''launch_id'', JString ''L1''),
           (''type'', JString ''SUITE''),
           (''parameters'', JNull)]))" for r
    by (simp add: Start_request_def n strings_json_def) (simp add: session_defs)
  have s: "sent world0 = []"
    by (simp add: world0_def)
  show ?thesis
    using t by (simp add: Start_reply_id b s)
qed

section \<open>The two encodings of a log message\<close>

lemma Log_sent:
  assumes "(case attachment of
              Some att \<Rightarrow> getReqForLogWithAttach e (items w a) message level att
            | None \<Rightarrow> getReqForLog e (items w a) message level) = Done req"
  shows "sent (snd (Log e a message level attachment w))
           = sent w @ [(req, Token (client (items w a)))]"
proof (cases "doRequest e req (Token (client (items w a)))")
  case (Pair r err)
  with assms show ?thesis
    by (cases r; cases err) (simp_all add: Log_def send_def Let_def)
qed

text \<open>
  C2. When the URL \<open>{endpoint}/{project}/log\<close> parses, \<open>Log\<close> without an attachment hands
  one request to \<open>doRequest\<close>: a POST to that URL whose body is one JSON object with the
  four members \<open>item_id\<close>, \<open>message\<close>, \<open>level\<close> and \<open>time\<close>. With an attachment whose
  reader delivers its bytes, the request is a POST to the same URL whose body is
  multipart with two parts in this order: the part named \<open>json_request_part\<close>, of content
  type \<open>application/json\<close>, holding a JSON array of one object with the members \<open>file\<close>
  (an object with the member \<open>name\<close>), \<open>item_id\<close>, \<open>level\<close>, \<open>message\<close> and \<open>time\<close>; then the part
  named \<open>file\<close>, with the file name and the mime type of the attachment and its bytes.
\<close>

theorem Log_request_bodies:
  assumes "parseURL e (Endpoint (client (items w a)) @ ''/'' @ Project (client (items w a))
             @ ''/log'') = None"
  shows "sent (snd (Log e a message level None w)) = sent w @
      [(\<lparr>Method = ''POST'',
         URL = Endpoint (client (items w a)) @ ''/'' @ Project (client (items w a)) @ ''/log'',
         ContentType = Some ''application/json'',
         ReqBody = Bytes (JSON (JObject
           [(''item_id'', JString (Id' (items w a))),
            (''message'', JString message),
            (''level'', JString level),
            (''time'', JNumber (toTimestamp (Now e)))]))\<rparr>,
        Token (client (items w a)))]
    \<and> (Data att = Some (Reader bytes None) \<longrightarrow>
        sent (snd (Log e a message level (Some att) w)) = sent w @
          [(\<lparr>Method = ''POST'',
             URL = Endpoint (client (items w a)) @ ''/'' @ Project (client (items w a))
                     @ ''/log'',
             ContentType = Some (''multipart/form-data; boundary='' @ randomBoundary e),
             ReqBody = Multipart (randomBoundary e)
               [\<lparr>Header = [(''Content-Disposition'',
                              ''form-data; name='' @ quoted ''json_request_part''),
                            (''Content-Type'', ''application/json'')],
                 Content = JSON (JArray [JObject
                   [(''file'', JObject [(''name'', JString (Attachment_Name att))]),
                    (''item_id'', JString (Id' (items w a))),
                    (''level'', JString level),
                    (''message'', JString message),
                    (''time'', JNumber (toTimestamp (Now e)))]])\<rparr>,
                \<lparr>Header = [(''Content-Disposition'',
                              ''form-data; name='' @ quoted ''file'' @ ''; filename=''
                                @ quoted (Attachment_Name att)),
                            (''Content-Type'', MimeType att)],
                 Content = Raw bytes\<rparr>]\<rparr>,
            Token (client (items w a)))])"
proof -
  have plain: "(case None of
              Some att \<Rightarrow> getReqForLogWithAttach e (items w a) message level att
            | None \<Rightarrow> getReqForLog e (items w a) message level) = Done
      \<lparr>Method = ''POST'',
       URL = Endpoint (client (items w a)) @ ''/'' @ Project (client (items w a)) @ ''/log'',
       ContentType = Some ''application/json'',
       ReqBody = Bytes (JSON (JObject
         [(''item_id'', JString (Id' (items w a))),
          (''message'', JString message),
          (''level'', JString level),
          (''time'', JNumber (toTimestamp (Now e)))]))\<rparr>"
    using assms by (simp add: getReqForLog_unfold)
  have attached: "(case Some att of
              Some att \<Rightarrow> getReqForLogWithAttach e (items w a) message level att
            | None \<Rightarrow> getReqForLog e (items w a) message level) = Done
      \<lparr>Method = ''POST'',
       URL = Endpoint (client (items w a)) @ ''/'' @ Project (client (items w a)) @ ''/log'',
       ContentType = Some (''multipart/form-data; boundary='' @ randomBoundary e),
       ReqBody = Multipart (randomBoundary e)
         [\<lparr>Header = [(''Content-Disposition'',
                        ''form-data; name='' @ quoted ''json_request_part''),
                      (''Content-Type'', ''application/json'')],
           Content = JSON (JArray [JObject
             [(''file'', JObject [(''name'', JString (Attachment_Name att))]),
              (''item_id'', JString (Id' (items w a))),
              (''level'', JString level),
              (''message'', JString message),
              (''time'', JNumber (toTimestamp (Now e)))]])\<rparr>,
          \<lparr>Header = [(''Content-Disposition'',
                        ''form-data; name='' @ quoted ''file'' @ ''; filename=''
                          @ quoted (Attachment_Name att)),
                      (''Content-Type'', MimeType att)],
           Content = Raw bytes\<rparr>]\<rparr>"
    if "Data att = Some (Reader bytes None)"
    using assms that by (simp add: getReqForLogWithAttach_unfold)
  from Log_sent [OF plain] Log_sent [OF attached] show ?thesis
    by blast
qed

theorem Log_request_bodies_witness:
  "sent (snd (Log (env0 refused) 0 ''boom'' ''error'' None world1)) = sent world1 @
      [(\<lparr>Method = ''POST'',
         URL = ''https://rp.example.com/api/v1/demo/log'',
         ContentType = Some ''application/json'',
         ReqBody = Bytes (JSON (JObject
           [(''item_id'', JString ''abc''),
            (''message'', JString ''boom''),
            (''level'', JString ''error''),
            (''time'', JNumber 1700000000005)]))\<rparr>,
        ''secret'')]
   \<and> sent (snd (Log (env0 refused) 0 ''boom'' ''error'' (Some screenshot) world1)) = sent world1 @
      [(\<lparr>Method = ''POST'',
         URL = ''https://rp.example.com/api/v1/demo/log'',
         ContentType = Some ''multipart/form-data; boundary=b0'',
         ReqBody = Multipart ''b0''
           [\<lparr>Header = [(''Content-Disposition'',
                          ''form-data; name='' @ quoted ''json_request_part''),
                        (''Content-Type'', ''application/json'')],
             Content = JSON (JArray [JObject
               [(''file'', JObject [(''name'', JString ''shot.png'')]),
                (''item_id'', JString ''abc''),
                (''level'', JString ''error''),
                (''message'', JString ''boom''),
                (''time'', JNumber 1700000000005)]])\<rparr>,
            \<lparr>Header = [(''Content-Disposition'',
                          ''form-data; name='' @ quoted ''file'' @ ''; filename=''
                            @ quoted ''shot.png''),
                        (''Content-Type'', ''image/png'')],
             Content = Raw ''PNG''\<rparr>]\<rparr>,
        ''secret'')]"
proof -
  have i: "items world1 0 = (items world0 0)\<lparr>Id' := ''abc''\<rparr>"
    by (simp add: world1_items)
  have c: "client (items world1 0) = client0" and d: "Id' (items world1 0) = ''abc''"
    by (simp_all add: i) (simp add: session_defs)
  have u: "Endpoint client0 @ ''/'' @ Project client0 @ ''/log''
             = ''https://rp.example.com/api/v1/demo/log''"
    and k: "Token client0 = ''secret''"
    by (simp_all add: client0_def)
  have p: "parseURL (env0 refused) (Endpoint (client (items world1 0)) @ ''/''
             @ Project (client (items world1 0)) @ ''/log'') = None"
    by (simp add: env0_simps)
  have r: "Data screenshot = Some (Reader ''PNG'' None)"
    and f: "Attachment_Name screenshot = ''shot.png''" and m: "MimeType screenshot = ''image/png''"
    by (simp_all add: screenshot_def)
  have n: "toTimestamp (Now (env0 refused)) = 1700000000005"
    by (simp add: env0_simps toTimestamp_def int64_def)
  have b: "randomBoundary (env0 refused) = ''b0''"
    by (simp add: env0_simps)
  note t = Log_request_bodies [OF p, of "''boom''" "''error''" screenshot "''PNG''",
      unfolded c d n b f m k]
  from t r u show ?thesis
    by simp
qed

section \<open>Replies without a response\<close>

lemma CheckConnect_unfold:
  "CheckConnect e c w =
    (case parseURL e (Endpoint c @ ''/user'') of
       Some err \<Rightarrow>
         (Failed (Wrapf err (''can't create a new request for '' @ Endpoint c @ ''/user'')), w)
     | None \<Rightarrow>
        (let req = \<lparr>Method = ''GET'', URL = Endpoint c @ ''/user'', ContentType = None,
                    ReqBody = NoBody\<rparr>;
             w1 = w\<lparr>sent := sent w @ [(req, Token c)]\<rparr>
         in case doRequest e req (Token c) of
              (None, err) \<Rightarrow> (Panic, w1)
            | (Some resp, Some err) \<Rightarrow>
                (Failed (Wrapf err (''failed to execute GET request '' @ URL req)), w1)
            | (Some resp, None) \<Rightarrow>
                if StatusCode resp \<noteq> 200
                then (Failed (New (''failed with status '' @ Status resp)), w1)
                else (Done (), w1)))"
proof (cases "parseURL e (Endpoint c @ ''/user'')")
  case (Some err)
  then show ?thesis
    by (simp add: CheckConnect_def library_defs)
next
  case None
  show ?thesis
  proof (cases "doRequest e \<lparr>Method = ''GET'', URL = Endpoint c @ ''/user'',
      ContentType = None, ReqBody = NoBody\<rparr> (Token c)")
    case (Pair r err)
    with None show ?thesis
      by (cases r; cases err) (simp_all add: CheckConnect_def library_defs)
  qed
qed

lemma GetDashboard_unfold:
  "GetDashboard e c w =
    (case parseURL e (Endpoint c @ ''/'' @ Project c @ ''/dashboard'') of
       Some err \<Rightarrow>
         (Failed (Wrapf err (''can't create request for '' @ Endpoint c @ ''/'' @ Project c
            @ ''/dashboard'')), w)
     | None \<Rightarrow>
        (let req = \<lparr>Method = ''GET'', URL = Endpoint c @ ''/'' @ Project c @ ''/dashboard'',
                    ContentType = Some ''application/json'', ReqBody = NoBody\<rparr>;
             w1 = w\<lparr>sent := sent w @ [(req, Token c)]\<rparr>
         in case doRequest e req (Token c) of
              (None, err) \<Rightarrow> (Panic, w1)
            | (Some resp, Some err) \<Rightarrow>
                (Failed (Wrapf err (''failed to execute GET request for '' @ URL req)), w1)
            | (Some resp, None) \<Rightarrow>
                if StatusCode resp \<noteq> 200
                then (Failed (New (''failed with status '' @ Status resp)), w1)
                else (case decodeDashboard e (Body resp) of
                        Inl err \<Rightarrow>
                          (Failed (Wrapf err ''failed to decode response for dashboard''), w1)
                      | Inr d \<Rightarrow> (Done d, w1))))"
proof (cases "parseURL e (Endpoint c @ ''/'' @ Project c @ ''/dashboard'')")
  case (Some err)
  then show ?thesis
    by (simp add: GetDashboard_def library_defs)
next
  case None
  show ?thesis
  proof (cases "doRequest e \<lparr>Method = ''GET'', URL = Endpoint c @ ''/'' @ Project c @ ''/dashboard'',
      ContentType = Some ''application/json'', ReqBody = NoBody\<rparr> (Token c)")
    case (Pair r err)
    with None show ?thesis
      by (cases r; cases err; cases "decodeDashboard e (Body (the r))")
        (simp_all add: GetDashboard_def library_defs)
  qed
qed

lemma Log_unfold:
  "Log e a message level None w =
    (case getReqForLog e (items w a) message level of
       Panic \<Rightarrow> (Panic, w)
     | Failed err \<Rightarrow> (Failed err, w)
     | Done req \<Rightarrow>
        (let w1 = w\<lparr>sent := sent w @ [(req, Token (client (items w a)))]\<rparr>
         in case doRequest e req (Token (client (items w a))) of
              (None, err) \<Rightarrow> (Panic, w1)
            | (Some resp, Some err) \<Rightarrow>
                (Failed (Wrapf err (''failed to execute POST request '' @ URL req)), w1)
            | (Some resp, None) \<Rightarrow>
                if StatusCode resp \<noteq> 201
                then (Failed (New (''failed with status '' @ Status resp)), w1)
                else (Done (), w1)))"
proof (cases "getReqForLog e (items w a) message level")
  case Panic
  then show ?thesis
    by (simp add: Log_def)
next
  case (Failed err)
  then show ?thesis
    by (simp add: Log_def)
next
  case (Done req)
  show ?thesis
  proof (cases "doRequest e req (Token (client (items w a)))")
    case (Pair r err)
    with Done show ?thesis
      by (cases r; cases err) (simp_all add: Log_def send_def Let_def)
  qed
qed

text \<open>
  What holds when \<open>doRequest\<close> always returns a response, with or without an error: no
  operation panics. (\<open>Log\<close> is taken without an attachment; with one it panics on a nil
  reader, whatever \<open>doRequest\<close> does.)
\<close>

lemma operations_return_on_response:
  assumes "\<And>req token. \<exists>resp err. doRequest e req token = (Some resp, err)"
  shows "fst (Start e a w) \<noteq> Panic \<and> fst (Finish e a status w) \<noteq> Panic
       \<and> fst (Log e a message level None w) \<noteq> Panic
       \<and> fst (Update e a description tags w) \<noteq> Panic
       \<and> fst (CheckConnect e c w) \<noteq> Panic \<and> fst (GetDashboard e c w) \<noteq> Panic"
proof -
  have reply: "\<exists>resp err. doRequest e req token = (Some resp, err)" for req token
    using assms by blast
  have start: "fst (Start e a w) \<noteq> Panic"
    using reply [of "Start_request e w a" "Token (client (items w a))"]
    by (auto simp: Start_unfold Let_def split: option.splits sum.splits if_splits)
  have finish: "fst (Finish e a status w) \<noteq> Panic"
    using reply [of "Finish_request e w a status" "Token (client (items w a))"]
    by (auto simp: Finish_unfold Let_def split: option.splits if_splits)
  have update: "fst (Update e a description tags w) \<noteq> Panic"
    using reply [of "Update_request w a description tags" "Token (client (items w a))"]
    by (auto simp: Update_unfold Let_def split: option.splits if_splits)
  have log: "fst (Log e a message level None w) \<noteq> Panic"
  proof (cases "getReqForLog e (items w a) message level")
    case Panic
    then show ?thesis
      by (simp add: getReqForLog_unfold split: option.splits)
  next
    case (Failed err)
    then show ?thesis
      by (simp add: Log_unfold)
  next
    case (Done req)
    with reply [of req "Token (client (items w a))"] show ?thesis
      by (auto simp: Log_unfold Let_def split: option.splits if_splits)
  qed
  have check: "fst (CheckConnect e c w) \<noteq> Panic"
    using reply [of "\<lparr>Method = ''GET'', URL = Endpoint c @ ''/user'', ContentType = None,
      ReqBody = NoBody\<rparr>" "Token c"]
    by (auto simp: CheckConnect_unfold Let_def split: option.splits if_splits)
  have dash: "fst (GetDashboard e c w) \<noteq> Panic"
    using reply [of "\<lparr>Method = ''GET'', URL = Endpoint c @ ''/'' @ Project c @ ''/dashboard'',
      ContentType = Some ''application/json'', ReqBody = NoBody\<rparr>" "Token c"]
    by (auto simp: GetDashboard_unfold Let_def split: option.splits sum.splits if_splits)
  from start finish log update check dash show ?thesis
    by blast
qed

text \<open>
  C8 fails on the code. When every URL parses and \<open>doRequest\<close> returns a nil response,
  as it does with the error of a transport failure, none of \<open>Start\<close>, \<open>Finish\<close>, \<open>Log\<close>,
  \<open>Update\<close>, \<open>CheckConnect\<close> and \<open>GetDashboard\<close> returns an error to its caller: each one
  panics at its deferred \<open>resp.Body.Close()\<close>, which is set up before the error is
  tested.
\<close>

theorem operations_panic_on_nil_response:
  assumes "\<And>u. parseURL e u = None"
    and "\<And>req token. doRequest e req token = (None, err)"
  shows "fst (Start e a w) = Panic \<and> fst (Finish e a status w) = Panic
       \<and> fst (Log e a message level None w) = Panic
       \<and> fst (Update e a description tags w) = Panic
       \<and> fst (CheckConnect e c w) = Panic \<and> fst (GetDashboard e c w) = Panic"
  using assms
  by (simp add: Start_unfold Finish_unfold Update_unfold Log_unfold getReqForLog_unfold
      CheckConnect_unfold GetDashboard_unfold Let_def)

theorem operations_panic_on_nil_response_witness:
  "fst (Start (env0 refused) 0 world1) = Panic
   \<and> fst (Finish (env0 refused) 0 ''FAILED'' world1) = Panic
   \<and> fst (Log (env0 refused) 0 ''boom'' ''error'' None world1) = Panic
   \<and> fst (Update (env0 refused) 0 ''weekly'' None world1) = Panic
   \<and> fst (CheckConnect (env0 refused) client0 world1) = Panic
   \<and> fst (GetDashboard (env0 refused) client0 world1) = Panic"
proof -
  have p: "parseURL (env0 refused) u = None" for u
    by (simp add: env0_simps)
  have r: "doRequest (env0 refused) req token = (None, Some (New ''dial tcp: connection refused''))"
    for req token
    by (simp add: env0_simps refused_def)
  show ?thesis
    by (rule operations_panic_on_nil_response [OF p r])
qed

section \<open>Activity\<close>

text \<open>
  C6 fails on the code. \<open>GetActivity\<close> hands no request to \<open>doRequest\<close> and returns a nil
  error with a nil \<open>*Activity\<close>: to its caller the call has succeeded, and nothing was
  obtained from the remote endpoint.
\<close>

theorem GetActivity_succeeds_without_request:
  "fst (GetActivity a w) = Done None \<and> snd (GetActivity a w) = w
   \<and> sent (snd (GetActivity a w)) = sent w"
  by (simp add: GetActivity_def)

end
